theory Spec2Isabelle
  imports Main
begin

section \<open>Python values shared by the modules\<close>

text \<open>
  Strings are \<^typ>\<open>string\<close> (lists of bytes) holding the UTF-8 encoding of the Python
  string: a character beyond ASCII is written as its bytes. Concatenation and the
  substring test agree with Python's on the encoding. An exception is a value carrying its
  class and the text that \<^verbatim>\<open>str(e)\<close> returns. Output printed on the console is not
  part of the model.
\<close>

datatype exn_class = ValueError | KeyError | WebSocketDisconnect | OtherException

datatype exn = Exn exn_class string

fun str_exn :: "exn \<Rightarrow> string" where
  "str_exn (Exn c s) = s"

fun class_of :: "exn \<Rightarrow> exn_class" where
  "class_of (Exn c s) = c"

text \<open>\<^verbatim>\<open>s.startswith(p)\<close> and the substring test \<^verbatim>\<open>p in s\<close>.\<close>

fun startswith :: "string \<Rightarrow> string \<Rightarrow> bool" where
  "startswith s [] = True"
| "startswith [] (p # ps) = False"
| "startswith (c # cs) (p # ps) = (c = p \<and> startswith cs ps)"

fun str_in :: "string \<Rightarrow> string \<Rightarrow> bool" where
  "str_in p [] = (p = [])"
| "str_in p (c # cs) = (startswith (c # cs) p \<or> str_in p cs)"

text \<open>
  \<^verbatim>\<open>s.lower()\<close> on the ASCII letters; every other byte is left as it is. The code
  uses the result only to look for \<^verbatim>\<open>yes\<close> in it, and no character beyond ASCII has
  a lower case that contains one of these three letters.
\<close>

definition lower_char :: "char \<Rightarrow> char" where
  "lower_char c =
     (case map_of (zip ''ABCDEFGHIJKLMNOPQRSTUVWXYZ'' ''abcdefghijklmnopqrstuvwxyz'') c of
        None \<Rightarrow> c
      | Some l \<Rightarrow> l)"

definition lower :: "string \<Rightarrow> string" where
  "lower s = map lower_char s"

text \<open>
  The characters of a string: a byte that is not a continuation byte starts a character,
  and the continuation bytes after it belong to it. \<^verbatim>\<open>len(s)\<close> is the number of
  characters and \<^verbatim>\<open>s[:n]\<close> the first \<open>n\<close> of them.
\<close>

definition is_continuation :: "char \<Rightarrow> bool" where
  "is_continuation b = (128 \<le> (of_char b :: nat) \<and> (of_char b :: nat) < 192)"

function chars :: "string \<Rightarrow> string list" where
  "chars [] = []"
| "chars (b # bs) = (b # takeWhile is_continuation bs) # chars (dropWhile is_continuation bs)"
  by pat_completeness auto
termination
  by (relation "measure length") (auto simp: length_dropWhile_le less_Suc_eq_le)

definition len :: "string \<Rightarrow> nat" where
  "len s = length (chars s)"

definition slice_to :: "nat \<Rightarrow> string \<Rightarrow> string" where
  "slice_to n s = concat (take n (chars s))"

text \<open>The code point a character of one to four bytes encodes.\<close>

fun code_point :: "string \<Rightarrow> nat" where
  "code_point [a] = of_char a"
| "code_point [a, b] = (of_char a - 192) * 64 + (of_char b - 128)"
| "code_point [a, b, c] = (of_char a - 224) * 4096 + (of_char b - 128) * 64 + (of_char c - 128)"
| "code_point [a, b, c, d] =
     (of_char a - 240) * 262144 + (of_char b - 128) * 4096 + (of_char c - 128) * 64
       + (of_char d - 128)"
| "code_point bs = 0"

text \<open>
  \<^verbatim>\<open>str.isspace\<close> on a character, and \<^verbatim>\<open>s.strip()\<close>, which removes the characters
  that are white space at both ends. The white space of Python is U+0009 to U+000D,
  U+001C to U+0020, U+0085, U+00A0, U+1680, U+2000 to U+200A, U+2028, U+2029, U+202F,
  U+205F and U+3000.
\<close>

definition isspace :: "string \<Rightarrow> bool" where
  "isspace c =
     (code_point c \<in> {9..13} \<union> {28..32} \<union> {0x85, 0xA0, 0x1680} \<union> {0x2000..0x200A}
        \<union> {0x2028, 0x2029, 0x202F, 0x205F, 0x3000})"

definition strip :: "string \<Rightarrow> string" where
  "strip s = concat (dropWhile isspace (rev (dropWhile isspace (rev (chars s)))))"

text \<open>\<^verbatim>\<open>sep.join(xs)\<close>.\<close>

fun join :: "string \<Rightarrow> string list \<Rightarrow> string" where
  "join sep [] = []"
| "join sep [x] = x"
| "join sep (x # y # ys) = x @ sep @ join sep (y # ys)"

text \<open>\<^verbatim>\<open>str(n)\<close> for the result of \<^verbatim>\<open>len\<close>: decimal digits, no leading zero.\<close>

definition digit_char :: "nat \<Rightarrow> char" where
  "digit_char d = ''0123456789'' ! d"

fun str_nat :: "nat \<Rightarrow> string" where
  "str_nat n = (if n < 10 then [digit_char n] else str_nat (n div 10) @ [digit_char (n mod 10)])"

declare str_nat.simps [simp del]

section \<open>The workflow: app/agents/graph.py\<close>

text \<open>
  \<^verbatim>\<open>AgentState\<close> is a \<^verbatim>\<open>TypedDict\<close>: a dictionary with typed keys, each of which may
  be absent (the relay starts the graph with \<^verbatim>\<open>{"question": query}\<close> only, and a node
  returns only the keys it updates). A key is \<open>None\<close> when the dictionary does not hold
  it.
\<close>

record AgentState =
  question :: "string option"
  documents :: "string list option"
  answer :: "string option"
  run_web_search :: "bool option"

text \<open>
  The language model is outside the program. A call takes the prompt and the state of
  the outside world and returns the world after the call with either the text of the
  response or the exception raised.
\<close>

type_synonym 'w llm = "string \<Rightarrow> 'w \<Rightarrow> (exn + string) \<times> 'w"

definition invoke_llm :: "'w llm \<Rightarrow> string \<Rightarrow> 'w \<Rightarrow> (exn + string) \<times> 'w" where
  "invoke_llm llm prompt w = llm prompt w"

text \<open>The retriever is outside the program too: the page contents found, or an exception.\<close>

type_synonym retriever = "string \<Rightarrow> exn + string list"

definition retrieve_node :: "retriever \<Rightarrow> AgentState \<Rightarrow> exn + AgentState" where
  "retrieve_node retr state =
     (case question state of
        None \<Rightarrow> Inl (Exn KeyError ([CHR 0x27] @ ''question'' @ [CHR 0x27]))
      | Some q \<Rightarrow>
          (case retr q of
             Inl e \<Rightarrow> Inl e
           | Inr docs \<Rightarrow>
               Inr \<lparr>question = None, documents = Some docs, answer = None,
                    run_web_search = Some False\<rparr>))"

definition grade_prompt :: "string \<Rightarrow> string \<Rightarrow> string" where
  "grade_prompt q doc =
     ''Is this document relevant to: '' @ q @ ''? Answer only '' @ [CHR 0x27] @ ''yes''
       @ [CHR 0x27] @ '' or '' @ [CHR 0x27] @ ''no'' @ [CHR 0x27] @ ''.'' @ [CHR 0x0A]
       @ ''Doc: '' @ doc"

text \<open>
  The loop of \<^verbatim>\<open>grade_documents_node\<close> over the documents left, with the list
  \<^verbatim>\<open>filtered_docs\<close> built so far. The prompt reads \<^verbatim>\<open>state['question']\<close> before the
  \<^verbatim>\<open>try\<close>, so a missing question is a \<^verbatim>\<open>KeyError\<close> that leaves the node.
\<close>

fun grade_loop ::
  "'w llm \<Rightarrow> string option \<Rightarrow> string list \<Rightarrow> string list \<Rightarrow> 'w \<Rightarrow> (exn + string list) \<times> 'w"
where
  "grade_loop llm qo [] filtered_docs w = (Inr filtered_docs, w)"
| "grade_loop llm qo (doc # docs) filtered_docs w =
     (case qo of
        None \<Rightarrow> (Inl (Exn KeyError ([CHR 0x27] @ ''question'' @ [CHR 0x27])), w)
      | Some q \<Rightarrow>
          (case invoke_llm llm (grade_prompt q doc) w of
             (Inr res, w') \<Rightarrow>
               if str_in ''yes'' (lower res)
               then grade_loop llm qo docs (filtered_docs @ [doc]) w'
               else grade_loop llm qo docs filtered_docs w'
           | (Inl e, w') \<Rightarrow> grade_loop llm qo docs (filtered_docs @ [doc]) w'))"

text \<open>
  The local variable \<^verbatim>\<open>search\<close> of \<^verbatim>\<open>grade_documents_node\<close>: it is computed from the
  filtered list and is not part of the dictionary the node returns.
\<close>

definition search_flag :: "string list \<Rightarrow> bool" where
  "search_flag filtered_docs = (filtered_docs = [])"

definition grade_documents_node ::
  "'w llm \<Rightarrow> AgentState \<Rightarrow> 'w \<Rightarrow> (exn + AgentState) \<times> 'w"
where
  "grade_documents_node llm state w =
     (case documents state of
        None \<Rightarrow> (Inl (Exn KeyError ([CHR 0x27] @ ''documents'' @ [CHR 0x27])), w)
      | Some docs \<Rightarrow>
          (case grade_loop llm (question state) docs [] w of
             (Inl e, w') \<Rightarrow> (Inl e, w')
           | (Inr filtered_docs, w') \<Rightarrow>
               (let search = search_flag filtered_docs
                in (Inr \<lparr>question = None, documents = Some filtered_docs, answer = None,
                         run_web_search = None\<rparr>, w'))))"

definition generate_prompt :: "string \<Rightarrow> string \<Rightarrow> string" where
  "generate_prompt context q =
     ''Based on the following context, answer the question.'' @ [CHR 0x0A, CHR 0x0A]
       @ ''Context: '' @ context @ [CHR 0x0A, CHR 0x0A] @ ''Question: '' @ q
       @ [CHR 0x0A, CHR 0x0A] @ ''Answer:''"

text \<open>\<^verbatim>\<open>state.get("answer")\<close> as a condition: true for a present, non-empty string.\<close>

definition has_answer :: "AgentState \<Rightarrow> bool" where
  "has_answer state = (case answer state of None \<Rightarrow> False | Some a \<Rightarrow> a \<noteq> [])"

definition generative_node ::
  "'w llm \<Rightarrow> AgentState \<Rightarrow> 'w \<Rightarrow> (exn + AgentState) \<times> 'w"
where
  "generative_node llm state w =
     (if has_answer state then (Inr state, w)
      else
        (case documents state of
           None \<Rightarrow> (Inl (Exn KeyError ([CHR 0x27] @ ''documents'' @ [CHR 0x27])), w)
         | Some docs \<Rightarrow>
             (case question state of
                None \<Rightarrow> (Inl (Exn KeyError ([CHR 0x27] @ ''question'' @ [CHR 0x27])), w)
              | Some q \<Rightarrow>
                  (case invoke_llm llm (generate_prompt (join [CHR 0x0A, CHR 0x0A] docs) q) w of
                     (Inr response_content, w') \<Rightarrow>
                       (Inr \<lparr>question = None, documents = None,
                             answer = Some response_content, run_web_search = None\<rparr>, w')
                   | (Inl e, w') \<Rightarrow>
                       (Inr \<lparr>question = None, documents = None,
                             answer = Some (''Error: '' @ str_exn e), run_web_search = None\<rparr>,
                        w')))))"

definition decide_to_generate :: "AgentState \<Rightarrow> string" where
  "decide_to_generate state = ''generate''"

text \<open>
  The compiled graph runs retrieve, grade and generate in this order (the only edge out
  of grade leads to generate). After each node the keys of the dictionary it returned
  overwrite those of the state; keys it did not return keep their value.
\<close>

definition update_state :: "AgentState \<Rightarrow> AgentState \<Rightarrow> AgentState" where
  "update_state state upd =
     \<lparr>question = (case question upd of None \<Rightarrow> question state | Some v \<Rightarrow> Some v),
      documents = (case documents upd of None \<Rightarrow> documents state | Some v \<Rightarrow> Some v),
      answer = (case answer upd of None \<Rightarrow> answer state | Some v \<Rightarrow> Some v),
      run_web_search =
        (case run_web_search upd of None \<Rightarrow> run_web_search state | Some v \<Rightarrow> Some v)\<rparr>"

definition retrieve_step :: "retriever \<Rightarrow> AgentState \<Rightarrow> exn + AgentState" where
  "retrieve_step retr state =
     (case retrieve_node retr state of
        Inl e \<Rightarrow> Inl e
      | Inr upd \<Rightarrow> Inr (update_state state upd))"

definition grade_step :: "'w llm \<Rightarrow> AgentState \<Rightarrow> 'w \<Rightarrow> (exn + AgentState) \<times> 'w" where
  "grade_step llm state w =
     (case grade_documents_node llm state w of
        (Inl e, w') \<Rightarrow> (Inl e, w')
      | (Inr upd, w') \<Rightarrow> (Inr (update_state state upd), w'))"

definition generate_step :: "'w llm \<Rightarrow> AgentState \<Rightarrow> 'w \<Rightarrow> (exn + AgentState) \<times> 'w" where
  "generate_step llm state w =
     (case generative_node llm state w of
        (Inl e, w') \<Rightarrow> (Inl e, w')
      | (Inr upd, w') \<Rightarrow> (Inr (update_state state upd), w'))"

definition agent_graph ::
  "retriever \<Rightarrow> 'w llm \<Rightarrow> AgentState \<Rightarrow> 'w \<Rightarrow> (exn + AgentState) \<times> 'w"
where
  "agent_graph retr llm inputs w =
     (case retrieve_step retr inputs of
        Inl e \<Rightarrow> (Inl e, w)
      | Inr s1 \<Rightarrow>
          (case grade_step llm s1 w of
             (Inl e, w1) \<Rightarrow> (Inl e, w1)
           | (Inr s2, w1) \<Rightarrow>
               (if decide_to_generate s2 = ''generate'' then generate_step llm s2 w1
                else (Inr s2, w1))))"

text \<open>Re-entry into the generate node: it runs again on the state its first run returned.\<close>

definition generate_twice :: "'w llm \<Rightarrow> AgentState \<Rightarrow> 'w \<Rightarrow> (exn + AgentState) \<times> 'w" where
  "generate_twice llm state w =
     (case generative_node llm state w of
        (Inl e, w') \<Rightarrow> (Inl e, w')
      | (Inr state', w') \<Rightarrow> generative_node llm state' w')"

section \<open>Ingestion: app/core/rag_engine.py\<close>

text \<open>
  A page or chunk: its text and the metadata the code reads or writes (the page number,
  the source path, and the mark \<^verbatim>\<open>"extraction": "ocr"\<close> on recognised pages).
\<close>

record Document =
  page_content :: string
  page :: nat
  source :: string
  extraction :: "string option"

text \<open>
  The libraries the engine calls are outside the program: the PDF loader, the page
  renderer, the character recogniser (on a rendered image of type \<open>'img\<close>), the text
  splitter configured with chunk size 400 and overlap 80, and the vector store. As with
  the language model, a call takes the state of the outside world and returns the world
  after the call with its result or the exception raised, so that a call made and a
  call not made differ.
\<close>

record ('img, 'w) pdf_env =
  OCR_AVAILABLE :: bool
  loader_load :: "string \<Rightarrow> 'w \<Rightarrow> (exn + Document list) \<times> 'w"
  convert_from_path :: "string \<Rightarrow> 'w \<Rightarrow> (exn + 'img list) \<times> 'w"
  image_to_string :: "'img \<Rightarrow> 'w \<Rightarrow> (exn + string) \<times> 'w"
  split_documents :: "Document list \<Rightarrow> 'w \<Rightarrow> (exn + Document list) \<times> 'w"
  from_documents :: "Document list \<Rightarrow> 'w \<Rightarrow> exn option \<times> 'w"

text \<open>
  A Python value as the caller of \<^verbatim>\<open>process_pdf\<close> receives it: a string, an integer or
  a dictionary. The function returns an f-string, that is, a string.
\<close>

datatype pyval = PyStr string | PyInt int | PyDict "(string \<times> pyval) list"

text \<open>The integers a returned value carries: itself, or the integer entries of a dictionary.\<close>

fun int_fields :: "pyval \<Rightarrow> int list" where
  "int_fields (PyInt n) = [n]"
| "int_fields (PyStr s) = []"
| "int_fields (PyDict kvs) = concat (map (\<lambda>kv. case snd kv of PyInt n \<Rightarrow> [n] | _ \<Rightarrow> []) kvs)"

text \<open>
  The page \<^verbatim>\<open>extract_text_with_ocr\<close> builds for the image at index \<open>i\<close> of
  \<^verbatim>\<open>enumerate(images)\<close>, and its loop over the images.
\<close>

definition ocr_document :: "string \<Rightarrow> nat \<Rightarrow> string \<Rightarrow> Document" where
  "ocr_document file_path i txt =
     \<lparr>page_content = txt, page = i + 1, source = file_path, extraction = Some ''ocr''\<rparr>"

fun ocr_pages ::
  "('img, 'w) pdf_env \<Rightarrow> string \<Rightarrow> 'img list \<Rightarrow> nat \<Rightarrow> Document list \<Rightarrow> 'w
     \<Rightarrow> (exn + Document list) \<times> 'w"
where
  "ocr_pages env file_path [] i docs w = (Inr docs, w)"
| "ocr_pages env file_path (img # images) i docs w =
     (case image_to_string env img w of
        (Inl e, w') \<Rightarrow> (Inl e, w')
      | (Inr txt, w') \<Rightarrow>
          ocr_pages env file_path images (Suc i)
            (if strip txt \<noteq> [] then docs @ [ocr_document file_path i txt] else docs) w')"

definition ocr_failed :: "exn \<Rightarrow> exn" where
  "ocr_failed e =
     Exn ValueError
       (''OCR extraction failed: '' @ str_exn e
          @ ''. Make sure Tesseract OCR and Poppler are installed.'')"

definition extract_text_with_ocr ::
  "('img, 'w) pdf_env \<Rightarrow> string \<Rightarrow> 'w \<Rightarrow> (exn + Document list) \<times> 'w"
where
  "extract_text_with_ocr env file_path w =
     (if \<not> OCR_AVAILABLE env
      then (Inl (Exn ValueError
                   ''OCR libraries not installed. Please install pdf2image and pytesseract.''),
            w)
      else
        (case convert_from_path env file_path w of
           (Inl e, w1) \<Rightarrow> (Inl (ocr_failed e), w1)
         | (Inr images, w1) \<Rightarrow>
             (case ocr_pages env file_path images 0 [] w1 of
                (Inl e, w2) \<Rightarrow> (Inl (ocr_failed e), w2)
              | (Inr docs, w2) \<Rightarrow> (Inr docs, w2))))"

text \<open>
  Lines 84 to 99 of \<^verbatim>\<open>process_pdf\<close>: the pages with text, first from the loader and,
  when none of its pages has text, from recognition.
\<close>

definition text_pages :: "Document list \<Rightarrow> Document list" where
  "text_pages docs = filter (\<lambda>doc. strip (page_content doc) \<noteq> []) docs"

definition extract_pages ::
  "('img, 'w) pdf_env \<Rightarrow> string \<Rightarrow> 'w \<Rightarrow> (exn + Document list) \<times> 'w"
where
  "extract_pages env file_path w =
     (case loader_load env file_path w of
        (Inl e, w1) \<Rightarrow> (Inl e, w1)
      | (Inr docs, w1) \<Rightarrow>
          (case (if text_pages docs = []
                 then
                   (case extract_text_with_ocr env file_path w1 of
                      (Inl e, w2) \<Rightarrow>
                        (Inl (Exn ValueError
                                (''PDF has no extractable text and OCR failed: '' @ str_exn e)),
                         w2)
                    | (Inr ocr_documents, w2) \<Rightarrow> (Inr ocr_documents, w2))
                 else (Inr (text_pages docs), w1)) of
             (Inl e, w2) \<Rightarrow> (Inl e, w2)
           | (Inr text_documents, w2) \<Rightarrow>
               if text_documents = []
               then
                 (Inl (Exn ValueError
                         ''Could not extract any text from PDF (tried both regular extraction and OCR)''),
                  w2)
               else (Inr text_documents, w2)))"

text \<open>Lines 101 to 121 of \<^verbatim>\<open>process_pdf\<close>: the pages are split, and the chunks indexed.\<close>

definition index_pages ::
  "('img, 'w) pdf_env \<Rightarrow> Document list \<Rightarrow> 'w \<Rightarrow> (exn + pyval) \<times> 'w"
where
  "index_pages env text_documents w =
     (case split_documents env text_documents w of
        (Inl e, w1) \<Rightarrow> (Inl e, w1)
      | (Inr chunks, w1) \<Rightarrow>
          if chunks = []
          then (Inl (Exn ValueError ''Could not extract any text chunks from the PDF''), w1)
          else
            (case from_documents env chunks w1 of
               (Some e, w2) \<Rightarrow> (Inl e, w2)
             | (None, w2) \<Rightarrow>
                 (Inr (PyStr (''Successfully processed '' @ str_nat (length chunks)
                                @ '' text chunks'')),
                  w2)))"

definition process_pdf ::
  "('img, 'w) pdf_env \<Rightarrow> string \<Rightarrow> 'w \<Rightarrow> (exn + pyval) \<times> 'w"
where
  "process_pdf env file_path w =
     (case extract_pages env file_path w of
        (Inl e, w1) \<Rightarrow> (Inl e, w1)
      | (Inr text_documents, w1) \<Rightarrow> index_pages env text_documents w1)"

section \<open>The session relay: main.py\<close>

text \<open>
  The rows of the conversation store the relay reads and writes. A conversation is
  found by its identifier. \<open>reachable\<close> says whether the database answers (a statement
  on an unreachable database raises), and \<open>commit_ok\<close> whether the commit of the
  transaction that adds a row succeeds (the database refuses some rows, such as a text
  with a NUL character). The relay catches the exception of either write on its own.
\<close>

record Message =
  conversation_id :: string
  role :: string
  content :: string

record Conversation =
  title :: string

record store =
  conversations :: "string \<rightharpoonup> Conversation"
  messages :: "Message list"
  reachable :: bool
  commit_ok :: "Message \<Rightarrow> bool"

text \<open>
  An event sent to the client, \<^verbatim>\<open>{"type": t, "content": c}\<close>, is the pair \<open>(t, c)\<close>.
  The socket records what was sent. \<open>sends_left\<close> is the number of sends the client
  still takes before it is gone (\<open>None\<close>: it stays connected); a later send raises
  \<open>send_error\<close>.
\<close>

type_synonym event = "string \<times> string"

record websocket =
  sent :: "event list"
  sends_left :: "nat option"
  send_error :: exn
  closed :: bool

definition send_json :: "websocket \<Rightarrow> event \<Rightarrow> exn + websocket" where
  "send_json ws ev =
     (case sends_left ws of
        None \<Rightarrow> Inr (ws\<lparr>sent := sent ws @ [ev]\<rparr>)
      | Some 0 \<Rightarrow> Inl (send_error ws)
      | Some (Suc n) \<Rightarrow> Inr (ws\<lparr>sent := sent ws @ [ev], sends_left := Some n\<rparr>))"

text \<open>
  What \<^verbatim>\<open>agent_graph.astream_events\<close> yields for one question: the events, each with
  its kind and, for a model token, the content of the token, and the exception that
  ends the iteration if there is one.
\<close>

datatype graph_event = on_chain_start | on_chat_model_stream string | other_event string

type_synonym astream = "graph_event list \<times> exn option"

text \<open>
  Lines 232 to 245: the user message is stored when the conversation exists, and the
  first message of a conversation gives it its title. When the query or the commit
  raises, the exception is caught and nothing of the transaction is stored.
\<close>

definition title_of :: "string \<Rightarrow> string" where
  "title_of query = slice_to 50 query @ (if len query > 50 then ''...'' else [])"

definition save_user_message :: "string \<Rightarrow> string \<Rightarrow> store \<Rightarrow> store" where
  "save_user_message cid query db =
     (if \<not> reachable db then db
      else
        (case conversations db cid of
           None \<Rightarrow> db
         | Some conversation \<Rightarrow>
             if \<not> commit_ok db \<lparr>conversation_id = cid, role = ''user'', content = query\<rparr>
             then db
             else
               db\<lparr>messages :=
                    messages db
                      @ [\<lparr>conversation_id = cid, role = ''user'', content = query\<rparr>],
                  conversations :=
                    (conversations db)(cid \<mapsto>
                       (if filter (\<lambda>m. conversation_id m = cid) (messages db) = []
                        then conversation\<lparr>title := title_of query\<rparr>
                        else conversation))\<rparr>))"

text \<open>
  Lines 266 to 274: the assistant message is added without a look at the conversation;
  the foreign key of \<^verbatim>\<open>messages.conversation_id\<close> makes the commit raise when the
  conversation does not exist. The exception of the commit is caught.
\<close>

definition save_assistant_message :: "string \<Rightarrow> string \<Rightarrow> store \<Rightarrow> store" where
  "save_assistant_message cid assistant_response db =
     (if \<not> reachable db then db
      else
        (case conversations db cid of
           None \<Rightarrow> db
         | Some conversation \<Rightarrow>
             if \<not> commit_ok db
                      \<lparr>conversation_id = cid, role = ''assistant'',
                       content = assistant_response\<rparr>
             then db
             else
               db\<lparr>messages :=
                    messages db
                      @ [\<lparr>conversation_id = cid, role = ''assistant'',
                           content = assistant_response\<rparr>]\<rparr>))"

text \<open>
  The loop over the events (lines 250 to 260), with \<^verbatim>\<open>assistant_response\<close> so far. It
  ends early with the exception of a send that failed.
\<close>

fun forward_events ::
  "graph_event list \<Rightarrow> string \<Rightarrow> websocket \<Rightarrow> exn option \<times> string \<times> websocket"
where
  "forward_events [] assistant_response ws = (None, assistant_response, ws)"
| "forward_events (on_chain_start # evs) assistant_response ws =
     (case send_json ws (''status'', ''Thinking...'') of
        Inl e \<Rightarrow> (Some e, assistant_response, ws)
      | Inr ws' \<Rightarrow> forward_events evs assistant_response ws')"
| "forward_events (on_chat_model_stream c # evs) assistant_response ws =
     (if c \<noteq> []
      then
        (case send_json ws (''chunk'', c) of
           Inl e \<Rightarrow> (Some e, assistant_response @ c, ws)
         | Inr ws' \<Rightarrow> forward_events evs (assistant_response @ c) ws')
      else forward_events evs assistant_response ws)"
| "forward_events (other_event k # evs) assistant_response ws =
     forward_events evs assistant_response ws"

text \<open>
  The advisory message of line 281; it starts with the warning sign U+26A0 U+FE0F,
  six bytes in UTF-8.
\<close>

definition rate_limit_advisory :: string where
  "rate_limit_advisory =
     [CHR 0xE2, CHR 0x9A, CHR 0xA0, CHR 0xEF, CHR 0xB8, CHR 0x8F]
       @ '' Rate limit reached. Please wait about 60 seconds before asking another question.''"

definition is_rate_limit :: "string \<Rightarrow> bool" where
  "is_rate_limit error_msg = (str_in ''429'' error_msg \<or> str_in ''RESOURCE_EXHAUSTED'' error_msg)"

text \<open>The handler of lines 276 to 288; an exception of its own sends leaves the loop.\<close>

definition on_agent_error :: "exn \<Rightarrow> websocket \<Rightarrow> exn option \<times> websocket" where
  "on_agent_error agent_error ws =
     (let error_msg = str_exn agent_error
      in case send_json ws
                (''chunk'',
                 if is_rate_limit error_msg then rate_limit_advisory
                 else ''Error processing request: '' @ error_msg) of
           Inl e \<Rightarrow> (Some e, ws)
         | Inr ws1 \<Rightarrow>
             (case send_json ws1 (''end'', []) of
                Inl e \<Rightarrow> (Some e, ws1)
              | Inr ws2 \<Rightarrow> (None, ws2)))"

text \<open>
  One turn of the loop of \<^verbatim>\<open>chat_socket\<close>, after the question was received: the
  exception that leaves the loop if there is one, the socket and the store.
\<close>

definition turn ::
  "string \<Rightarrow> string \<Rightarrow> astream \<Rightarrow> websocket \<Rightarrow> store \<Rightarrow> exn option \<times> websocket \<times> store"
where
  "turn cid query stream ws db =
     (let db1 = save_user_message cid query db
      in case forward_events (fst stream) [] ws of
           (Some e, assistant_response, ws1) \<Rightarrow>
             (case on_agent_error e ws1 of (r, ws2) \<Rightarrow> (r, ws2, db1))
         | (None, assistant_response, ws1) \<Rightarrow>
             (case snd stream of
                Some e \<Rightarrow> (case on_agent_error e ws1 of (r, ws2) \<Rightarrow> (r, ws2, db1))
              | None \<Rightarrow>
                  (case send_json ws1 (''end'', []) of
                     Inl e \<Rightarrow> (case on_agent_error e ws1 of (r, ws2) \<Rightarrow> (r, ws2, db1))
                   | Inr ws2 \<Rightarrow>
                       (None, ws2,
                        if assistant_response \<noteq> []
                        then save_assistant_message cid assistant_response db1
                        else db1))))"

text \<open>
  The receive loop over the questions the client sends, each with what the workflow
  yields for it. When the client has sent its last question, \<^verbatim>\<open>receive_text\<close> raises
  \<^verbatim>\<open>WebSocketDisconnect\<close>.
\<close>

fun chat_loop ::
  "string \<Rightarrow> (string \<times> astream) list \<Rightarrow> websocket \<Rightarrow> store \<Rightarrow> exn \<times> websocket \<times> store"
where
  "chat_loop cid [] ws db = (Exn WebSocketDisconnect [], ws, db)"
| "chat_loop cid ((query, stream) # rest) ws db =
     (case turn cid query stream ws db of
        (Some e, ws', db') \<Rightarrow> (e, ws', db')
      | (None, ws', db') \<Rightarrow> chat_loop cid rest ws' db')"

definition chat_socket ::
  "string \<Rightarrow> (string \<times> astream) list \<Rightarrow> websocket \<Rightarrow> store \<Rightarrow> websocket \<times> store"
where
  "chat_socket cid inputs ws db =
     (case chat_loop cid inputs ws db of
        (e, ws', db') \<Rightarrow>
          if class_of e = WebSocketDisconnect then (ws', db') else (ws'\<lparr>closed := True\<rparr>, db'))"

text \<open>
  What the relay sends for the events of a stream when every send succeeds, and the
  text it accumulates.
\<close>

fun relayed :: "graph_event list \<Rightarrow> event list" where
  "relayed [] = []"
| "relayed (on_chain_start # evs) = (''status'', ''Thinking...'') # relayed evs"
| "relayed (on_chat_model_stream c # evs) =
     (if c \<noteq> [] then (''chunk'', c) # relayed evs else relayed evs)"
| "relayed (other_event k # evs) = relayed evs"

fun accumulated :: "graph_event list \<Rightarrow> string" where
  "accumulated [] = []"
| "accumulated (on_chat_model_stream c # evs) = c @ accumulated evs"
| "accumulated (ev # evs) = accumulated evs"

text \<open>
  The order of events the specification describes for a successful turn: one status
  event, then one or more chunk events whose contents together are not empty, then one
  end event.
\<close>

definition is_chunk :: "event \<Rightarrow> bool" where
  "is_chunk ev = (fst ev = ''chunk'')"

definition scenario_order :: "event list \<Rightarrow> bool" where
  "scenario_order evs =
     (case evs of
        [] \<Rightarrow> False
      | ev # rest \<Rightarrow>
          fst ev = ''status''
          \<and> takeWhile is_chunk rest \<noteq> []
          \<and> concat (map snd (takeWhile is_chunk rest)) \<noteq> []
          \<and> list_all (\<lambda>e. fst e = ''end'') (dropWhile is_chunk rest)
          \<and> length (dropWhile is_chunk rest) = 1)"



section \<open>Sample inputs\<close>

text \<open>
  A model that raises at every call and one that answers no at every call; both count
  the calls made.
\<close>

definition failing_llm :: "nat llm" where
  "failing_llm prompt w = (Inl (Exn OtherException ''429 RESOURCE_EXHAUSTED''), Suc w)"

definition no_llm :: "nat llm" where
  "no_llm prompt w = (Inr ''no'', Suc w)"

definition retrieved_state :: AgentState where
  "retrieved_state =
     \<lparr>question = Some ''q'', documents = Some [''a'', ''b''], answer = None,
      run_web_search = Some False\<rparr>"

definition answered_state :: AgentState where
  "answered_state =
     \<lparr>question = Some ''q'', documents = Some [''a''], answer = Some ''done'',
      run_web_search = Some False\<rparr>"

text \<open>A connected client, and a client that is gone before the first send.\<close>

definition ws0 :: websocket where
  "ws0 = \<lparr>sent = [], sends_left = None, send_error = Exn WebSocketDisconnect [], closed = False\<rparr>"


text \<open>
  A store holding one conversation without messages that accepts every row; the same
  store when the database does not answer; and the same store when the database refuses
  a text with a NUL character.
\<close>

definition db0 :: store where
  "db0 =
     \<lparr>conversations = [''c1'' \<mapsto> \<lparr>title = ''New Chat''\<rparr>], messages = [], reachable = True,
      commit_ok = (\<lambda>m. True)\<rparr>"


definition db_strict :: store where
  "db_strict =
     \<lparr>conversations = [''c1'' \<mapsto> \<lparr>title = ''New Chat''\<rparr>], messages = [], reachable = True,
      commit_ok = (\<lambda>m. CHR 0x00 \<notin> set (content m))\<rparr>"

text \<open>
  The libraries of ingestion for four files. The world is the list of the library calls
  made so far, each call adding itself; the recogniser reads an image as the text it
  shows. One file has text on two of its three pages (the second holds a no-break
  space only); one is scanned, so that only recognition finds its text; one has no
  text at all; and one has no text while the recognition libraries are not installed.
\<close>

datatype call = Load | Convert | Recognise | Split | Index

definition logged :: "call \<Rightarrow> 'a \<Rightarrow> call list \<Rightarrow> 'a \<times> call list" where
  "logged c r w = (r, w @ [c])"

definition text_env :: "(string, call list) pdf_env" where
  "text_env =
     \<lparr>OCR_AVAILABLE = True,
      loader_load =
        (\<lambda>p. logged Load
           (Inr [\<lparr>page_content = ''Page one.'', page = 0, source = p, extraction = None\<rparr>,
                 \<lparr>page_content = [CHR 0xC2, CHR 0xA0], page = 1, source = p,
                  extraction = None\<rparr>,
                 \<lparr>page_content = ''Page three.'', page = 2, source = p, extraction = None\<rparr>])),
      convert_from_path = (\<lambda>p. logged Convert (Inr [''Picture''])),
      image_to_string = (\<lambda>img. logged Recognise (Inr img)),
      split_documents = (\<lambda>docs. logged Split (Inr docs)),
      from_documents = (\<lambda>chunks. logged Index None)\<rparr>"

definition scanned_env :: "(string, call list) pdf_env" where
  "scanned_env =
     \<lparr>OCR_AVAILABLE = True,
      loader_load =
        (\<lambda>p. logged Load
           (Inr [\<lparr>page_content = [CHR 0xC2, CHR 0xA0], page = 0, source = p,
                  extraction = None\<rparr>])),
      convert_from_path = (\<lambda>p. logged Convert (Inr [''  '', ''Scanned text''])),
      image_to_string = (\<lambda>img. logged Recognise (Inr img)),
      split_documents = (\<lambda>docs. logged Split (Inr docs)),
      from_documents = (\<lambda>chunks. logged Index None)\<rparr>"

definition blank_env :: "(string, call list) pdf_env" where
  "blank_env =
     \<lparr>OCR_AVAILABLE = True,
      loader_load =
        (\<lambda>p. logged Load
           (Inr [\<lparr>page_content = [], page = 0, source = p, extraction = None\<rparr>])),
      convert_from_path = (\<lambda>p. logged Convert (Inr [''  ''])),
      image_to_string = (\<lambda>img. logged Recognise (Inr img)),
      split_documents = (\<lambda>docs. logged Split (Inr docs)),
      from_documents = (\<lambda>chunks. logged Index None)\<rparr>"

definition no_ocr_env :: "(string, call list) pdf_env" where
  "no_ocr_env =
     \<lparr>OCR_AVAILABLE = False,
      loader_load =
        (\<lambda>p. logged Load
           (Inr [\<lparr>page_content = [], page = 0, source = p, extraction = None\<rparr>])),
      convert_from_path = (\<lambda>p. logged Convert (Inr [''Scanned text''])),
      image_to_string = (\<lambda>img. logged Recognise (Inr img)),
      split_documents = (\<lambda>docs. logged Split (Inr docs)),
      from_documents = (\<lambda>chunks. logged Index None)\<rparr>"

section \<open>Properties of the workflow\<close>

lemma grade_loop_all_fail:
  assumes "\<forall>doc \<in> set docs. \<forall>w. isl (fst (llm (grade_prompt q doc) w))"
  shows "\<exists>w'. grade_loop llm (Some q) docs acc w = (Inr (acc @ docs), w')"
  using assms
proof (induction docs arbitrary: acc w)
  case Nil
  then show ?case by simp
next
  case (Cons doc docs)
  obtain r w1 where call: "llm (grade_prompt q doc) w = (r, w1)"
    by (cases "llm (grade_prompt q doc) w")
  from Cons.prems have "isl (fst (llm (grade_prompt q doc) w))" by simp
  with call obtain e where r: "r = Inl e" by (cases r) auto
  from Cons.prems have rest: "\<forall>d \<in> set docs. \<forall>w. isl (fst (llm (grade_prompt q d) w))"
    by simp
  from Cons.IH [OF rest, of "acc @ [doc]" w1]
  obtain w' where "grade_loop llm (Some q) docs (acc @ [doc]) w1 = (Inr ((acc @ [doc]) @ docs), w')"
    by blast
  with call r show ?case by (simp add: invoke_llm_def)
qed

lemma update_state_self: "update_state state state = state"
  by (cases state) (simp add: update_state_def split: option.splits)

lemma startswith_append: "startswith (p @ s) p"
  by (induction p) simp_all

lemma str_in_append: "str_in p (xs @ p @ ys)"
proof (induction xs)
  case Nil
  show ?case
  proof (cases "p @ ys")
    case Nil
    then show ?thesis by simp
  next
    case (Cons c cs)
    have "startswith (p @ ys) p" by (rule startswith_append)
    with Cons show ?thesis by simp
  qed
next
  case (Cons x xs)
  then show ?case by simp
qed

text \<open>
  Claim C1. When the relevance judgment raises for every retrieved chunk, the grade node
  returns the documents it was given, all of them and in their order: a failed judgment
  keeps the chunk, so failures alone never shrink or empty the filtered list.
\<close>

theorem grade_fail_open:
  assumes docs: "documents state = Some docs"
    and q: "question state = Some q"
    and fails: "\<forall>doc \<in> set docs. \<forall>w. isl (fst (llm (grade_prompt q doc) w))"
  shows "fst (grade_documents_node llm state w) =
           Inr \<lparr>question = None, documents = Some docs, answer = None, run_web_search = None\<rparr>
       \<and> fst (grade_step llm state w) = Inr state"
proof -
  from grade_loop_all_fail [OF fails, of "[]" w]
  obtain w' where "grade_loop llm (Some q) docs [] w = (Inr docs, w')" by auto
  with docs q have node: "grade_documents_node llm state w =
      (Inr \<lparr>question = None, documents = Some docs, answer = None, run_web_search = None\<rparr>, w')"
    by (simp add: grade_documents_node_def)
  have "update_state state
          \<lparr>question = None, documents = Some docs, answer = None, run_web_search = None\<rparr> = state"
    using docs by (cases state) (simp add: update_state_def)
  with node show ?thesis by (simp add: grade_step_def)
qed

theorem grade_fail_open_witness:
  "fst (grade_documents_node failing_llm retrieved_state 0) =
     Inr \<lparr>question = None, documents = Some [''a'', ''b''], answer = None,
          run_web_search = None\<rparr>
   \<and> fst (grade_step failing_llm retrieved_state 0) = Inr retrieved_state"
  using grade_fail_open [of retrieved_state "[''a'', ''b'']" "''q''" failing_llm 0]
  by (simp add: failing_llm_def retrieved_state_def)

text \<open>
  Claim C2. On a state whose answer is present and not empty, the generate node returns
  the state as it is and leaves the world of the model untouched (no call is made);
  running it a second time on the result gives the same, and the state of the graph
  after the node is the state before it.
\<close>

theorem generate_idempotent:
  assumes "answer state = Some a" and "a \<noteq> []"
  shows "generative_node llm state w = (Inr state, w)
       \<and> generate_twice llm state w = generative_node llm state w
       \<and> generate_step llm state w = (Inr state, w)"
  using assms
  by (simp add: generative_node_def generate_twice_def generate_step_def has_answer_def
      update_state_self)

theorem generate_idempotent_witness:
  "generative_node failing_llm answered_state 0 = (Inr answered_state, 0)
   \<and> generate_twice failing_llm answered_state 0 = generative_node failing_llm answered_state 0
   \<and> generate_step failing_llm answered_state 0 = (Inr answered_state, 0)"
  using generate_idempotent [of answered_state "''done''" failing_llm 0]
  by (simp add: answered_state_def)

text \<open>
  Claim C3. The claim says that the web-search flag of the state is true after the
  grade node filtered every chunk out. At this input the model answers no for the only
  chunk: the node computes its local flag as true, returns a dictionary holding only
  the documents, and the state after the node still has the flag at the value the
  retrieve node gave it, false.
\<close>

theorem grade_search_flag_not_in_state:
  "retrieve_step (\<lambda>q. Inr [''d''])
     \<lparr>question = Some ''q'', documents = None, answer = None, run_web_search = None\<rparr>
   = Inr \<lparr>question = Some ''q'', documents = Some [''d''], answer = None,
          run_web_search = Some False\<rparr>
   \<and> grade_documents_node no_llm
       \<lparr>question = Some ''q'', documents = Some [''d''], answer = None,
        run_web_search = Some False\<rparr> 0
     = (Inr \<lparr>question = None, documents = Some [], answer = None, run_web_search = None\<rparr>, 1)
   \<and> search_flag [] = True
   \<and> grade_step no_llm
       \<lparr>question = Some ''q'', documents = Some [''d''], answer = None,
        run_web_search = Some False\<rparr> 0
     = (Inr \<lparr>question = Some ''q'', documents = Some [], answer = None,
            run_web_search = Some False\<rparr>, 1)"
  by (simp add: retrieve_step_def retrieve_node_def grade_step_def grade_documents_node_def
      invoke_llm_def no_llm_def lower_def lower_char_def update_state_def search_flag_def)

text \<open>
  Claim C4. On a state without an answer (absent or empty), when the call of the model
  raises, the generate node returns normally: the dictionary it returns holds as answer
  the text \<^verbatim>\<open>Error: \<close> followed by the text of the exception, which the answer
  therefore contains.
\<close>

theorem generate_error_answer:
  assumes "\<not> has_answer state"
    and "documents state = Some docs"
    and "question state = Some q"
    and "llm (generate_prompt (join [CHR 0x0A, CHR 0x0A] docs) q) w = (Inl e, w')"
  shows "generative_node llm state w =
           (Inr \<lparr>question = None, documents = None,
                 answer = Some (''Error: '' @ str_exn e), run_web_search = None\<rparr>, w')
       \<and> str_in (str_exn e) (''Error: '' @ str_exn e)"
proof -
  have "str_in (str_exn e) (''Error: '' @ str_exn e @ [])" by (rule str_in_append)
  with assms show ?thesis by (simp add: generative_node_def invoke_llm_def)
qed

theorem generate_error_answer_witness:
  "generative_node failing_llm retrieved_state 0 =
     (Inr \<lparr>question = None, documents = None,
           answer = Some ''Error: 429 RESOURCE_EXHAUSTED'', run_web_search = None\<rparr>, 1)"
  using generate_error_answer [of retrieved_state "[''a'', ''b'']" "''q''" failing_llm 0
      "Exn OtherException ''429 RESOURCE_EXHAUSTED''" 1]
  by (simp add: failing_llm_def retrieved_state_def has_answer_def)

section \<open>Properties of the session relay\<close>

lemma send_json_live:
  "sends_left ws = None \<Longrightarrow> send_json ws ev = Inr (ws\<lparr>sent := sent ws @ [ev]\<rparr>)"
  by (simp add: send_json_def)

lemma forward_events_live:
  "sends_left ws = None \<Longrightarrow>
   forward_events evs acc ws = (None, acc @ accumulated evs, ws\<lparr>sent := sent ws @ relayed evs\<rparr>)"
proof (induction evs arbitrary: acc ws)
  case Nil
  then show ?case by simp
next
  case (Cons ev evs)
  show ?case
  proof (cases ev)
    case on_chain_start
    have "sends_left (ws\<lparr>sent := sent ws @ [(''status'', ''Thinking...'')]\<rparr>) = None"
      using Cons.prems by simp
    from Cons.IH [OF this, of acc] on_chain_start Cons.prems show ?thesis
      by (simp add: send_json_live)
  next
    case (on_chat_model_stream c)
    show ?thesis
    proof (cases "c = []")
      case True
      with on_chat_model_stream Cons.IH [OF Cons.prems, of acc] show ?thesis by simp
    next
      case False
      have "sends_left (ws\<lparr>sent := sent ws @ [(''chunk'', c)]\<rparr>) = None"
        using Cons.prems by simp
      from Cons.IH [OF this, of "acc @ c"] on_chat_model_stream False Cons.prems show ?thesis
        by (simp add: send_json_live)
    qed
  next
    case (other_event k)
    with Cons.IH [OF Cons.prems, of acc] show ?thesis by simp
  qed
qed

lemma on_agent_error_live:
  "sends_left ws = None \<Longrightarrow>
   on_agent_error e ws =
     (None, ws\<lparr>sent := sent ws @
        [(''chunk'', if is_rate_limit (str_exn e) then rate_limit_advisory
                     else ''Error processing request: '' @ str_exn e), (''end'', [])]\<rparr>)"
  by (simp add: on_agent_error_def send_json_live)

lemma turn_live:
  assumes "sends_left ws = None"
  shows "turn cid query stream ws db =
     (case snd stream of
        Some e \<Rightarrow>
          (None,
           ws\<lparr>sent := sent ws @ relayed (fst stream) @
              [(''chunk'', if is_rate_limit (str_exn e) then rate_limit_advisory
                           else ''Error processing request: '' @ str_exn e), (''end'', [])]\<rparr>,
           save_user_message cid query db)
      | None \<Rightarrow>
          (None, ws\<lparr>sent := sent ws @ relayed (fst stream) @ [(''end'', [])]\<rparr>,
           if accumulated (fst stream) \<noteq> []
           then save_assistant_message cid (accumulated (fst stream)) (save_user_message cid query db)
           else save_user_message cid query db))"
  using assms
  by (simp add: turn_def forward_events_live on_agent_error_live send_json_live
      split: option.splits)

lemma relayed_no_end: "filter (\<lambda>ev. fst ev = ''end'') (relayed evs) = []"
  by (induction evs rule: relayed.induct) simp_all

lemma accumulated_relayed: "accumulated evs = concat (map snd (filter is_chunk (relayed evs)))"
  by (induction evs rule: relayed.induct) (simp_all add: is_chunk_def)

lemma relayed_chunks:
  assumes "accumulated evs \<noteq> []"
  shows "filter is_chunk (relayed evs) \<noteq> []"
proof
  assume "filter is_chunk (relayed evs) = []"
  with accumulated_relayed [of evs] have "accumulated evs = []" by simp
  with assms show False by simp
qed

lemma save_user_message_reachable: "reachable (save_user_message cid query db) = reachable db"
  by (simp add: save_user_message_def split: option.splits)

lemma save_user_message_commit_ok: "commit_ok (save_user_message cid query db) = commit_ok db"
  by (simp add: save_user_message_def split: option.splits)

lemma save_user_message_conversation:
  "(conversations (save_user_message cid query db) cid = None) = (conversations db cid = None)"
  by (simp add: save_user_message_def split: option.splits)

lemma messages_user:
  "messages (save_user_message cid query db) =
     messages db
     @ (if reachable db \<and> conversations db cid \<noteq> None
           \<and> commit_ok db \<lparr>conversation_id = cid, role = ''user'', content = query\<rparr>
        then [\<lparr>conversation_id = cid, role = ''user'', content = query\<rparr>] else [])"
  by (auto simp: save_user_message_def split: option.splits)

lemma messages_assistant:
  "messages (save_assistant_message cid r db) =
     messages db
     @ (if reachable db \<and> conversations db cid \<noteq> None
           \<and> commit_ok db \<lparr>conversation_id = cid, role = ''assistant'', content = r\<rparr>
        then [\<lparr>conversation_id = cid, role = ''assistant'', content = r\<rparr>] else [])"
  by (auto simp: save_assistant_message_def split: option.splits)




text \<open>
  Claim C6, as amended. In a turn with a connected client in which the workflow ends
  without an exception and has streamed a token that is not empty, the relay sends one
  status event for every chain start and one chunk event for every non-empty token, in
  the order of the stream, and then one end event, the only one; there is at least one
  chunk event, and the contents of the chunk events together are the streamed text.
  After the turn the store holds, after the messages it had, the user message with the
  question if that write succeeded, and then the assistant message with the streamed
  text if that write succeeded; a write succeeds when the database is reachable, holds
  the conversation and commits the row.
\<close>

theorem completed_turn:
  assumes live: "sends_left ws = None"
    and completed: "snd stream = None"
    and tokens: "accumulated (fst stream) \<noteq> []"
  shows "fst (turn cid query stream ws db) = None
       \<and> sent (fst (snd (turn cid query stream ws db))) =
           sent ws @ relayed (fst stream) @ [(''end'', [])]
       \<and> filter (\<lambda>ev. fst ev = ''end'') (relayed (fst stream)) = []
       \<and> filter is_chunk (relayed (fst stream)) \<noteq> []
       \<and> concat (map snd (filter is_chunk (relayed (fst stream)))) = accumulated (fst stream)
       \<and> messages (snd (snd (turn cid query stream ws db))) =
           messages db
           @ (if reachable db \<and> conversations db cid \<noteq> None
                 \<and> commit_ok db \<lparr>conversation_id = cid, role = ''user'', content = query\<rparr>
              then [\<lparr>conversation_id = cid, role = ''user'', content = query\<rparr>]
              else [])
           @ (if reachable db \<and> conversations db cid \<noteq> None
                 \<and> commit_ok db
                      \<lparr>conversation_id = cid, role = ''assistant'',
                       content = accumulated (fst stream)\<rparr>
              then [\<lparr>conversation_id = cid, role = ''assistant'',
                     content = accumulated (fst stream)\<rparr>]
              else [])"
proof -
  have t: "turn cid query stream ws db =
          (None, ws\<lparr>sent := sent ws @ relayed (fst stream) @ [(''end'', [])]\<rparr>,
           save_assistant_message cid (accumulated (fst stream)) (save_user_message cid query db))"
    using completed tokens by (simp add: turn_live [OF live])
  show ?thesis
    unfolding t using tokens
    by (simp add: relayed_no_end accumulated_relayed [symmetric] relayed_chunks
        messages_assistant messages_user save_user_message_reachable
        save_user_message_commit_ok save_user_message_conversation)
qed

theorem completed_turn_witness:
  "fst (turn ''c1'' ''hi''
         ([on_chain_start, on_chat_model_stream ''Hel'', on_chat_model_stream ''lo''], None)
         ws0 db0) = None
   \<and> sent (fst (snd (turn ''c1'' ''hi''
         ([on_chain_start, on_chat_model_stream ''Hel'', on_chat_model_stream ''lo''], None)
         ws0 db0))) =
       [(''status'', ''Thinking...''), (''chunk'', ''Hel''), (''chunk'', ''lo''), (''end'', [])]
   \<and> messages (snd (snd (turn ''c1'' ''hi''
         ([on_chain_start, on_chat_model_stream ''Hel'', on_chat_model_stream ''lo''], None)
         ws0 db0))) =
       [\<lparr>conversation_id = ''c1'', role = ''user'', content = ''hi''\<rparr>,
        \<lparr>conversation_id = ''c1'', role = ''assistant'', content = ''Hello''\<rparr>]"
  using completed_turn [of ws0
      "([on_chain_start, on_chat_model_stream ''Hel'', on_chat_model_stream ''lo''], None)"
      "''c1''" "''hi''" db0]
  by (simp add: ws0_def db0_def)

text \<open>
  Claim C6 as stated fails. With a chain start for each of two nodes and a model token
  between them, the turn completes and the client gets status, chunk, status, chunk,
  end, which is not one status event followed by chunks and an end. When the database
  refuses the row of the question (it holds a NUL character), the turn completes in
  the order described and only the assistant message is stored. And when the workflow
  ends without having streamed a token, the client gets a status and an end event, no
  chunk, and only the user message is stored.
\<close>

theorem scenario_order_counterexample:
  "fst (turn ''c1'' ''hi''
         ([on_chain_start, on_chat_model_stream ''yes'', on_chain_start,
           on_chat_model_stream ''hi''], None) ws0 db0) = None
   \<and> sent (fst (snd (turn ''c1'' ''hi''
         ([on_chain_start, on_chat_model_stream ''yes'', on_chain_start,
           on_chat_model_stream ''hi''], None) ws0 db0))) =
       [(''status'', ''Thinking...''), (''chunk'', ''yes''), (''status'', ''Thinking...''),
        (''chunk'', ''hi''), (''end'', [])]
   \<and> \<not> scenario_order (sent (fst (snd (turn ''c1'' ''hi''
         ([on_chain_start, on_chat_model_stream ''yes'', on_chain_start,
           on_chat_model_stream ''hi''], None) ws0 db0))))
   \<and> sent (fst (snd (turn ''c1'' [CHR ''a'', CHR 0x00, CHR ''b'']
         ([on_chain_start, on_chat_model_stream ''Hello''], None) ws0 db_strict))) =
       [(''status'', ''Thinking...''), (''chunk'', ''Hello''), (''end'', [])]
   \<and> messages (snd (snd (turn ''c1'' [CHR ''a'', CHR 0x00, CHR ''b'']
         ([on_chain_start, on_chat_model_stream ''Hello''], None) ws0 db_strict))) =
       [\<lparr>conversation_id = ''c1'', role = ''assistant'', content = ''Hello''\<rparr>]
   \<and> fst (turn ''c1'' ''hi'' ([on_chain_start], None) ws0 db0) = None
   \<and> sent (fst (snd (turn ''c1'' ''hi'' ([on_chain_start], None) ws0 db0))) =
       [(''status'', ''Thinking...''), (''end'', [])]
   \<and> messages (snd (snd (turn ''c1'' ''hi'' ([on_chain_start], None) ws0 db0))) =
       [\<lparr>conversation_id = ''c1'', role = ''user'', content = ''hi''\<rparr>]"
  by (simp add: turn_def send_json_def ws0_def db0_def db_strict_def save_user_message_def
      save_assistant_message_def scenario_order_def is_chunk_def)






section \<open>Properties of ingestion\<close>

lemma concat_chars: "concat (chars s) = s"
  by (induction s rule: chars.induct) simp_all















lemma strip_samples:
  "strip ''Page one.'' = ''Page one.''"
  "strip ''Page three.'' = ''Page three.''"
  "strip ''Scanned text'' = ''Scanned text''"
  "strip [CHR 0xC2, CHR 0xA0] = []"
  "strip ''  '' = []"
  "strip [] = []"
  by (simp_all add: strip_def isspace_def is_continuation_def)

lemma text_env_fields:
  "OCR_AVAILABLE text_env = True"
  "loader_load text_env p w =
     (Inr [\<lparr>page_content = ''Page one.'', page = 0, source = p, extraction = None\<rparr>,
           \<lparr>page_content = [CHR 0xC2, CHR 0xA0], page = 1, source = p, extraction = None\<rparr>,
           \<lparr>page_content = ''Page three.'', page = 2, source = p, extraction = None\<rparr>],
      w @ [Load])"
  "convert_from_path text_env p w = (Inr [''Picture''], w @ [Convert])"
  "image_to_string text_env img w = (Inr img, w @ [Recognise])"
  "split_documents text_env docs w = (Inr docs, w @ [Split])"
  "from_documents text_env chunks w = (None, w @ [Index])"
  by (simp_all add: text_env_def logged_def)

lemma scanned_env_fields:
  "OCR_AVAILABLE scanned_env = True"
  "loader_load scanned_env p w =
     (Inr [\<lparr>page_content = [CHR 0xC2, CHR 0xA0], page = 0, source = p, extraction = None\<rparr>],
      w @ [Load])"
  "convert_from_path scanned_env p w = (Inr [''  '', ''Scanned text''], w @ [Convert])"
  "image_to_string scanned_env img w = (Inr img, w @ [Recognise])"
  "split_documents scanned_env docs w = (Inr docs, w @ [Split])"
  "from_documents scanned_env chunks w = (None, w @ [Index])"
  by (simp_all add: scanned_env_def logged_def)

lemma blank_env_fields:
  "OCR_AVAILABLE blank_env = True"
  "loader_load blank_env p w =
     (Inr [\<lparr>page_content = [], page = 0, source = p, extraction = None\<rparr>],
      w @ [Load])"
  "convert_from_path blank_env p w = (Inr [''  ''], w @ [Convert])"
  "image_to_string blank_env img w = (Inr img, w @ [Recognise])"
  "split_documents blank_env docs w = (Inr docs, w @ [Split])"
  "from_documents blank_env chunks w = (None, w @ [Index])"
  by (simp_all add: blank_env_def logged_def)

lemma no_ocr_env_fields:
  "OCR_AVAILABLE no_ocr_env = False"
  "loader_load no_ocr_env p w =
     (Inr [\<lparr>page_content = [], page = 0, source = p, extraction = None\<rparr>],
      w @ [Load])"
  "convert_from_path no_ocr_env p w = (Inr [''Scanned text''], w @ [Convert])"
  "image_to_string no_ocr_env img w = (Inr img, w @ [Recognise])"
  "split_documents no_ocr_env docs w = (Inr docs, w @ [Split])"
  "from_documents no_ocr_env chunks w = (None, w @ [Index])"
  by (simp_all add: no_ocr_env_def logged_def)

lemma process_text_env:
  "process_pdf text_env ''a.pdf'' [] =
     (Inr (PyStr ''Successfully processed 2 text chunks''), [Load, Split, Index])"
  by (simp add: process_pdf_def extract_pages_def index_pages_def text_env_fields
      text_pages_def strip_samples str_nat.simps digit_char_def)

lemma recognise_scanned_env:
  "extract_text_with_ocr scanned_env ''a.pdf'' [Load] =
     (Inr [\<lparr>page_content = ''Scanned text'', page = 2, source = ''a.pdf'',
            extraction = Some ''ocr''\<rparr>],
      [Load, Convert, Recognise, Recognise])"
  by (simp add: extract_text_with_ocr_def scanned_env_fields strip_samples ocr_document_def)

lemma process_scanned_env:
  "process_pdf scanned_env ''a.pdf'' [] =
     (Inr (PyStr ''Successfully processed 1 text chunks''),
      [Load, Convert, Recognise, Recognise, Split, Index])"
  by (simp add: process_pdf_def extract_pages_def index_pages_def scanned_env_fields
      recognise_scanned_env text_pages_def strip_samples str_nat.simps digit_char_def)

lemma recognise_blank_env:
  "extract_text_with_ocr blank_env ''a.pdf'' [Load] = (Inr [], [Load, Convert, Recognise])"
  by (simp add: extract_text_with_ocr_def blank_env_fields strip_samples)

lemma process_blank_env:
  "process_pdf blank_env ''a.pdf'' [] =
     (Inl (Exn ValueError
             ''Could not extract any text from PDF (tried both regular extraction and OCR)''),
      [Load, Convert, Recognise])"
  by (simp add: process_pdf_def extract_pages_def blank_env_fields recognise_blank_env
      text_pages_def strip_samples)

lemma recognise_no_ocr_env:
  "extract_text_with_ocr no_ocr_env ''a.pdf'' [Load] =
     (Inl (Exn ValueError
             ''OCR libraries not installed. Please install pdf2image and pytesseract.''),
      [Load])"
  by (simp add: extract_text_with_ocr_def no_ocr_env_fields)

lemma process_no_ocr_env:
  "process_pdf no_ocr_env ''a.pdf'' [] =
     (Inl (Exn ValueError
             ''PDF has no extractable text and OCR failed: OCR libraries not installed. Please install pdf2image and pytesseract.''),
      [Load])"
  by (simp add: process_pdf_def extract_pages_def no_ocr_env_fields recognise_no_ocr_env
      text_pages_def strip_samples)

lemma extract_text_env:
  "extract_pages text_env ''a.pdf'' [] =
     (Inr [\<lparr>page_content = ''Page one.'', page = 0, source = ''a.pdf'', extraction = None\<rparr>,
           \<lparr>page_content = ''Page three.'', page = 2, source = ''a.pdf'', extraction = None\<rparr>],
      [Load])"
  by (simp add: extract_pages_def text_env_fields text_pages_def strip_samples)


text \<open>
  Claim C8, as amended. When extraction, splitting and indexing succeed with a
  non-empty list of chunks, \<^verbatim>\<open>process_pdf\<close> returns the string
  \<^verbatim>\<open>Successfully processed N text chunks\<close>, with N the number of chunks in decimal;
  the value returned is this string alone and carries no integer.
\<close>

theorem process_pdf_summary:
  assumes "extract_pages env fp w = (Inr text_documents, w1)"
    and "split_documents env text_documents w1 = (Inr chunks, w2)"
    and "chunks \<noteq> []"
    and "from_documents env chunks w2 = (None, w3)"
  shows "process_pdf env fp w =
           (Inr (PyStr (''Successfully processed '' @ str_nat (length chunks) @ '' text chunks'')),
            w3)
       \<and> int_fields (PyStr (''Successfully processed '' @ str_nat (length chunks) @ '' text chunks''))
           = []"
  using assms by (simp add: process_pdf_def index_pages_def)

theorem process_pdf_summary_witness:
  "process_pdf text_env ''a.pdf'' [] =
     (Inr (PyStr ''Successfully processed 2 text chunks''), [Load, Split, Index])"
  using process_pdf_summary [of text_env "''a.pdf''" "[]"
      "[\<lparr>page_content = ''Page one.'', page = 0, source = ''a.pdf'', extraction = None\<rparr>,
        \<lparr>page_content = ''Page three.'', page = 2, source = ''a.pdf'', extraction = None\<rparr>]"
      "[Load]"
      "[\<lparr>page_content = ''Page one.'', page = 0, source = ''a.pdf'', extraction = None\<rparr>,
        \<lparr>page_content = ''Page three.'', page = 2, source = ''a.pdf'', extraction = None\<rparr>]"
      "[Load, Split]" "[Load, Split, Index]"]
  by (simp add: extract_text_env text_env_fields str_nat.simps digit_char_def)

text \<open>
  Claim C8 as stated fails: for the file with text on two pages the value returned is
  the message string, and the count 2 is not among the integers it carries.
\<close>

theorem summary_integer_counterexample:
  "fst (process_pdf text_env ''a.pdf'' []) = Inr (PyStr ''Successfully processed 2 text chunks'')
   \<and> 2 \<notin> set (int_fields (PyStr ''Successfully processed 2 text chunks''))"
  by (simp add: process_text_env)

end
